theory Spec2Isabelle
  imports Main
begin

section \<open>Pre-commit hook wrappers: the ambient world\<close>

text \<open>
  The three hooks under \<^verbatim>\<open>precommit/checks/general\<close> are straight-line Python scripts.
  Each one queries git for the staged paths, looks at the file system, possibly spawns
  a collaborator script, prints guidance and returns an exit code.  The model makes the
  ambient state explicit (a \<open>world\<close>: the git index, the file system and the two
  permissions a remediation needs), records every effect of a hook in a trace of events,
  and returns the exit code, the trace and the world the hook leaves behind.
\<close>

subsection \<open>Processes and events\<close>

text \<open>\<^verbatim>\<open>subprocess.CompletedProcess\<close>: the child's exit status and what it wrote.\<close>

record completed_process =
  returncode :: int
  stdout :: string
  stderr :: string

text \<open>
  \<^verbatim>\<open>capture_output=True, text=True\<close> is \<open>Captured\<close>; without it the child inherits
  the parent's streams and its messages are shown live (\<open>Inherited\<close>).
\<close>

datatype stream_mode = Captured | Inherited

text \<open>
  What a hook does to the outside: a write to one of its two streams, a call of
  \<^verbatim>\<open>subprocess.run\<close> (the command line, the \<^verbatim>\<open>cwd=\<close> argument when given, the
  stream mode), and a call of \<^verbatim>\<open>Path.unlink\<close>.  Tests such as \<^verbatim>\<open>Path.exists\<close>
  only read the world and leave no event.
\<close>

datatype event =
    Stdout string
  | Stderr string
  | Run "string list" "string option" stream_mode
  | Unlink string

datatype entry = Absent | RegularFile | Directory

datatype os_error = PermissionError | IsADirectoryError

text \<open>
  \<open>index\<close> holds the lines that \<^verbatim>\<open>git diff --cached --name-only\<close> prints, one staged
  path each, in order (a query that fails prints nothing: the empty list).
  \<open>files\<close> says what lies at an absolute path.  \<open>unlink_permitted\<close> and
  \<open>reset_permitted\<close> say whether deleting a file, and \<^verbatim>\<open>git reset HEAD <path>\<close>, succeed.
\<close>

record world =
  index :: "string list"
  files :: "string \<Rightarrow> entry"
  unlink_permitted :: bool
  reset_permitted :: bool

text \<open>
  The process environment of a hook: \<^verbatim>\<open>sys.executable\<close>, \<^verbatim>\<open>Path.cwd()\<close> and the resolved
  \<^verbatim>\<open>__file__\<close> of the script.
\<close>

record env =
  sys_executable :: string
  cwd :: string
  script_file :: string

text \<open>
  The collaborator scripts are outside the repository.  Running the interpreter on a
  command line is a parameter of the model: it yields the child's outcome and the world
  the child leaves behind.
\<close>

type_synonym spawn = "string list \<Rightarrow> world \<Rightarrow> completed_process \<times> world"

text \<open>
  What a hook run amounts to.  \<open>exit_code\<close> is the value that \<^verbatim>\<open>main\<close> returns to
  \<^verbatim>\<open>SystemExit\<close> or hands to \<^verbatim>\<open>sys.exit\<close>, an unbounded Python integer.
\<close>

record outcome =
  exit_code :: int
  trace :: "event list"
  final :: world

subsection \<open>Paths (POSIX flavour of \<^verbatim>\<open>pathlib\<close>)\<close>

definition path_join :: "string \<Rightarrow> string \<Rightarrow> string" where
  "path_join d name = (if d \<noteq> [] \<and> last d = CHR ''/'' then d @ name else d @ ''/'' @ name)"

definition path_parent :: "string \<Rightarrow> string" where
  "path_parent p =
     (let q = rev (dropWhile (\<lambda>c. c \<noteq> CHR ''/'') (rev p))
      in if q = [] then ''.'' else if q = ''/'' then ''/'' else butlast q)"

definition path_name :: "string \<Rightarrow> string" where
  "path_name p = rev (takeWhile (\<lambda>c. c \<noteq> CHR ''/'') (rev p))"

definition path_exists :: "world \<Rightarrow> string \<Rightarrow> bool" where
  "path_exists w p = (files w p \<noteq> Absent)"

definition path_is_file :: "world \<Rightarrow> string \<Rightarrow> bool" where
  "path_is_file w p = (files w p = RegularFile)"

text \<open>
  \<^verbatim>\<open>Path.unlink(missing_ok=True)\<close>: a missing file is no error, a directory and a
  refused deletion raise.
\<close>

definition unlink :: "string \<Rightarrow> world \<Rightarrow> os_error + world" where
  "unlink p w =
     (case files w p of
        Absent \<Rightarrow> Inr w
      | Directory \<Rightarrow> Inl IsADirectoryError
      | RegularFile \<Rightarrow>
          if unlink_permitted w then Inr (w\<lparr>files := (files w)(p := Absent)\<rparr>)
          else Inl PermissionError)"

subsection \<open>Strings\<close>

text \<open>The ASCII characters that \<^verbatim>\<open>str.strip()\<close> removes: 9 to 13, 28 to 31 and the blank.\<close>

definition is_space :: "char \<Rightarrow> bool" where
  "is_space c = (let n = of_char c :: nat in (9 \<le> n \<and> n \<le> 13) \<or> (28 \<le> n \<and> n \<le> 32))"

definition strip :: "string \<Rightarrow> string" where
  "strip s = rev (dropWhile is_space (rev (dropWhile is_space s)))"

definition startswith :: "string \<Rightarrow> string \<Rightarrow> bool" where
  "startswith s a = (take (length a) s = a)"

subsection \<open>git\<close>

text \<open>
  \<^verbatim>\<open>run(["git", "diff", "--cached", "--name-only"]).stdout.splitlines()\<close>: the lines
  of the query's output.  The query changes nothing.
\<close>

definition git_diff_cmd :: "string list" where
  "git_diff_cmd = [''git'', ''diff'', ''--cached'', ''--name-only'']"

definition git_diff_lines :: "world \<Rightarrow> string list" where
  "git_diff_lines w = index w"

text \<open>
  \<^verbatim>\<open>[line.strip() for line in diff.stdout.splitlines() if line.strip()]\<close>; the nul-file
  guard builds a set of the same elements.
\<close>

definition staged :: "world \<Rightarrow> string list" where
  "staged w = filter (\<lambda>s. s \<noteq> []) (map strip (git_diff_lines w))"

text \<open>
  \<^verbatim>\<open>git reset HEAD <path>\<close> takes the path out of the staged set when it succeeds and
  leaves the index alone when it fails; the hook never looks at its exit status.
\<close>

definition git_reset_cmd :: "string \<Rightarrow> string list" where
  "git_reset_cmd p = [''git'', ''reset'', ''HEAD'', p]"

definition git_reset_head :: "string \<Rightarrow> world \<Rightarrow> world" where
  "git_reset_head p w = (if reset_permitted w then w\<lparr>index := removeAll p (index w)\<rparr> else w)"

section \<open>prevent\_nul\_file.py\<close>

definition nul_path :: "env \<Rightarrow> string" where
  "nul_path e = path_join (cwd e) ''nul''"

definition nul_guidance :: "event list" where
  "nul_guidance =
     [Stdout ''\<newline>ERROR: Attempting to commit Windows 'nul' file\<newline>\<newline>'',
      Stdout ''The file 'nul' is created by Windows command redirections like:\<newline>'',
      Stdout ''  dir /s /b *.json 2>nul\<newline>\<newline>'',
      Stdout ''Solutions:\<newline>'',
      Stdout ''  1. Use PowerShell: Get-ChildItem -Recurse -Filter *.json\<newline>'',
      Stdout ''  2. Use bash/Git Bash: find . -name '*.json' 2>/dev/null\<newline>'',
      Stdout ''  3. Don't redirect stderr: dir /s /b *.json\<newline>\<newline>'',
      Stdout ''Auto-cleanup: Removing 'nul' file and unstaging...\<newline>'']"

text \<open>
  The \<^verbatim>\<open>try\<close> block of the staged branch: the deletion is attempted when the path is a
  regular file, and an exception is swallowed (\<^verbatim>\<open>except Exception: pass\<close>).
\<close>

definition try_delete_nul :: "env \<Rightarrow> world \<Rightarrow> event list \<times> world" where
  "try_delete_nul e w =
     (if path_exists w (nul_path e) \<and> path_is_file w (nul_path e) then
        (case unlink (nul_path e) w of
           Inr w' \<Rightarrow> ([Unlink (nul_path e)], w')
         | Inl err \<Rightarrow> ([Unlink (nul_path e)], w))
      else ([], w))"

definition main_prevent_nul_file :: "env \<Rightarrow> world \<Rightarrow> outcome" where
  "main_prevent_nul_file e w =
     (if ''nul'' \<in> set (staged w) then
        (let (del, w1) = try_delete_nul e w;
             w2 = git_reset_head ''nul'' w1
         in \<lparr>exit_code = 1,
             trace = [Run git_diff_cmd None Captured] @ nul_guidance @ del @
                     [Run (git_reset_cmd ''nul'') None Captured,
                      Stdout ''Fixed! Please commit again.\<newline>''],
             final = w2\<rparr>)
      else if path_exists w (nul_path e) \<and> path_is_file w (nul_path e) then
        (case unlink (nul_path e) w of
           Inr w' \<Rightarrow>
             \<lparr>exit_code = 0,
              trace = [Run git_diff_cmd None Captured,
                       Stdout ''\<newline>WARNING: Found 'nul' file in working directory\<newline>'',
                       Stdout ''Auto-cleanup: Removing it...\<newline>'',
                       Unlink (nul_path e),
                       Stdout ''Cleaned up.\<newline>''],
              final = w'\<rparr>
         | Inl err \<Rightarrow>
             \<lparr>exit_code = 0,
              trace = [Run git_diff_cmd None Captured,
                       Stdout ''\<newline>WARNING: Found 'nul' file in working directory\<newline>'',
                       Stdout ''Auto-cleanup: Removing it...\<newline>'',
                       Unlink (nul_path e),
                       Stdout ''Could not remove 'nul' file; please remove manually.\<newline>''],
              final = w\<rparr>)
      else \<lparr>exit_code = 0, trace = [Run git_diff_cmd None Captured], final = w\<rparr>)"

section \<open>validate\_agent\_pointers.py\<close>

text \<open>
  \<^verbatim>\<open>RELEVANT_PATTERN\<close> is \<^verbatim>\<open>^(?:\.agent/|CLAUDE\.md|AGENTS\.md|\.github/copilot-instructions\.md|\.windsurf/rules\.md)\<close>:
  anchored at the start only, an alternation of five literals (each \<^verbatim>\<open>\.\<close> is a literal
  dot).  \<^verbatim>\<open>re.match\<close> succeeds when one of the alternatives matches at position 0.
\<close>

definition RELEVANT_PATTERN :: "string list" where
  "RELEVANT_PATTERN =
     [''.agent/'', ''CLAUDE.md'', ''AGENTS.md'', ''.github/copilot-instructions.md'',
      ''.windsurf/rules.md'']"

definition re_match :: "string list \<Rightarrow> string \<Rightarrow> bool" where
  "re_match alternatives s = list_ex (startswith s) alternatives"

definition generator :: "env \<Rightarrow> string" where
  "generator e =
     path_join (path_join (path_join (cwd e) ''.agent'') ''scripts'') ''generate_pointers.py''"

definition generator_cmd :: "env \<Rightarrow> string list" where
  "generator_cmd e = [sys_executable e, generator e, ''--check'']"

definition main_validate_agent_pointers :: "env \<Rightarrow> spawn \<Rightarrow> world \<Rightarrow> outcome" where
  "main_validate_agent_pointers e py w =
     (if list_ex (re_match RELEVANT_PATTERN) (staged w) then
        (if \<not> path_exists w (generator e) then
           \<lparr>exit_code = 1,
            trace = [Run git_diff_cmd None Captured,
                     Stdout ''Detected changes to agent files or pointer files\<newline>'',
                     Stderr ''Error: .agent/scripts/generate_pointers.py not found.\<newline>''],
            final = w\<rparr>
         else
           (let (proc, w') = py (generator_cmd e) w
            in if returncode proc = 0 then
                 \<lparr>exit_code = 0,
                  trace = [Run git_diff_cmd None Captured,
                           Stdout ''Detected changes to agent files or pointer files\<newline>'',
                           Run (generator_cmd e) None Captured,
                           Stdout ''Agent pointer files are up to date\<newline>''],
                  final = w'\<rparr>
               else
                 \<lparr>exit_code = 1,
                  trace = [Run git_diff_cmd None Captured,
                           Stdout ''Detected changes to agent files or pointer files\<newline>'',
                           Run (generator_cmd e) None Captured,
                           Stdout ''\<newline>Agent pointer files are out of sync!\<newline>\<newline>'',
                           Stdout ''To fix, run:\<newline>'',
                           Stdout (''  '' @ path_name (sys_executable e) @ '' '' @ generator e
                                   @ ''\<newline>''),
                           Stdout ''  git add CLAUDE.md AGENTS.md .github/copilot-instructions.md .windsurf/rules.md\<newline>\<newline>'',
                           Stdout (stdout proc),
                           Stderr (stderr proc)],
                  final = w'\<rparr>))
      else
        \<lparr>exit_code = 0,
         trace = [Run git_diff_cmd None Captured,
                  Stdout ''No agent files modified, skipping validation\<newline>''],
         final = w\<rparr>)"

section \<open>organize\_scattered\_docs.py\<close>

definition SCRIPT_DIR :: "env \<Rightarrow> string" where
  "SCRIPT_DIR e = path_parent (script_file e)"

definition ROOT_DIR :: "env \<Rightarrow> string" where
  "ROOT_DIR e = path_parent (path_parent (path_parent (SCRIPT_DIR e)))"

definition ORGANIZE_SCRIPT :: "env \<Rightarrow> string" where
  "ORGANIZE_SCRIPT e =
     path_join (path_join (path_join (path_join (ROOT_DIR e) ''git-hooks'') ''checks'')
       ''python'') ''organize_docs.py''"

text \<open>
  \<^verbatim>\<open>parser.parse_args()\<close> either yields the namespace with its one flag, or leaves the
  process: with status 0 after printing the help text, with status 2 after printing a
  usage error.
\<close>

datatype parse_result = Namespace bool | Help string | Usage_error string

definition organizer_cmd :: "env \<Rightarrow> string \<Rightarrow> string list" where
  "organizer_cmd e flag = [sys_executable e, ORGANIZE_SCRIPT e, flag]"

definition main_organize_scattered_docs :: "env \<Rightarrow> spawn \<Rightarrow> parse_result \<Rightarrow> world \<Rightarrow> outcome" where
  "main_organize_scattered_docs e py args w =
     (case args of
        Help text \<Rightarrow> \<lparr>exit_code = 0, trace = [Stdout text], final = w\<rparr>
      | Usage_error text \<Rightarrow> \<lparr>exit_code = 2, trace = [Stderr text], final = w\<rparr>
      | Namespace auto_fix \<Rightarrow>
          if auto_fix then
            (let (result, w') = py (organizer_cmd e ''--auto-move'') w
             in \<lparr>exit_code = returncode result,
                 trace = [Stdout ''Auto-organizing scattered documentation files...\<newline>'',
                          Run (organizer_cmd e ''--auto-move'') (Some (ROOT_DIR e)) Inherited,
                          Stdout (if returncode result = 0
                                  then ''SUCCESS: Documentation organization completed successfully\<newline>''
                                  else ''ERROR: Documentation organization failed\<newline>'')],
                 final = w'\<rparr>)
          else
            (let (result, w') = py (organizer_cmd e ''--dry-run'') w
             in if returncode result = 0 then
                  \<lparr>exit_code = 0,
                   trace = [Run (organizer_cmd e ''--dry-run'') (Some (ROOT_DIR e)) Captured,
                            Stdout ''SUCCESS: All documentation files are properly organized\<newline>''],
                   final = w'\<rparr>
                else
                  \<lparr>exit_code = 1,
                   trace = [Run (organizer_cmd e ''--dry-run'') (Some (ROOT_DIR e)) Captured,
                            Stdout ''WARNING: Scattered documentation files detected!\<newline>'',
                            Stdout ''\<newline>The following files should be organized:\<newline>'',
                            Stdout (stdout result @ ''\<newline>''),
                            Stdout ''\<newline>To automatically organize these files, run:\<newline>'',
                            Stdout ''  python git-hooks/checks/python/organize_docs.py --auto-move\<newline>'',
                            Stdout ''\<newline>Or add --auto-fix to this hook to organize automatically on commit.\<newline>''],
                   final = w'\<rparr>))"

section \<open>Concrete environments, worlds and collaborators\<close>

text \<open>
  A checkout at \<^verbatim>\<open>/repo\<close> with the hooks under \<^verbatim>\<open>/repo/precommit/checks/general\<close>, used to
  evaluate the hooks on concrete inputs.
\<close>

definition env0 :: env where
  "env0 = \<lparr>sys_executable = ''/usr/bin/python3'', cwd = ''/repo'',
           script_file = ''/repo/precommit/checks/general/organize_scattered_docs.py''\<rparr>"

definition mk_world :: "string list \<Rightarrow> (string \<times> entry) list \<Rightarrow> bool \<Rightarrow> bool \<Rightarrow> world" where
  "mk_world staged_lines present can_unlink can_reset =
     \<lparr>index = staged_lines,
      files = (\<lambda>p. case map_of present p of None \<Rightarrow> Absent | Some k \<Rightarrow> k),
      unlink_permitted = can_unlink,
      reset_permitted = can_reset\<rparr>"

text \<open>A collaborator that exits with the given status and output and touches nothing.\<close>

definition child :: "int \<Rightarrow> string \<Rightarrow> string \<Rightarrow> spawn" where
  "child status out err = (\<lambda>cmd w. (\<lparr>returncode = status, stdout = out, stderr = err\<rparr>, w))"

text \<open>
  The relevance rule in the words of the specification: a path under the directory
  \<^verbatim>\<open>.agent/\<close>, or equal to one of the four pointer files.  It is compared with
  \<open>RELEVANT_PATTERN\<close> below.
\<close>

definition spec_relevant :: "string \<Rightarrow> bool" where
  "spec_relevant p =
     (startswith p ''.agent/'' \<or> p = ''CLAUDE.md'' \<or> p = ''AGENTS.md''
      \<or> p = ''.github/copilot-instructions.md'' \<or> p = ''.windsurf/rules.md'')"

section \<open>Basic facts\<close>

lemma strip_nul: "strip ''nul'' = ''nul''"
  by (simp add: strip_def is_space_def)

lemma nul_staged_of_index: "''nul'' \<in> set (index w) \<Longrightarrow> ''nul'' \<in> set (staged w)"
  unfolding staged_def git_diff_lines_def
  using strip_nul by force

lemma try_delete_nul_index: "index (snd (try_delete_nul e w)) = index w"
  by (auto simp: try_delete_nul_def unlink_def split: entry.splits)

lemma try_delete_nul_reset: "reset_permitted (snd (try_delete_nul e w)) = reset_permitted w"
  by (auto simp: try_delete_nul_def unlink_def split: entry.splits)

lemma try_delete_nul_files:
  "files (snd (try_delete_nul e w)) =
     (if files w (nul_path e) = RegularFile \<and> unlink_permitted w
      then (files w)(nul_path e := Absent) else files w)"
  by (auto simp: try_delete_nul_def unlink_def path_exists_def path_is_file_def
      split: entry.splits)

lemma try_delete_nul_trace:
  "fst (try_delete_nul e w) =
     (if files w (nul_path e) = RegularFile then [Unlink (nul_path e)] else [])"
  by (auto simp: try_delete_nul_def unlink_def path_exists_def path_is_file_def
      split: entry.splits)

lemma nul_staged_outcome:
  assumes "''nul'' \<in> set (staged w)"
  shows "main_prevent_nul_file e w =
           \<lparr>exit_code = 1,
            trace = [Run git_diff_cmd None Captured] @ nul_guidance @ fst (try_delete_nul e w) @
                    [Run (git_reset_cmd ''nul'') None Captured,
                     Stdout ''Fixed! Please commit again.\<newline>''],
            final = git_reset_head ''nul'' (snd (try_delete_nul e w))\<rparr>"
  using assms by (simp add: main_prevent_nul_file_def Let_def split: prod.splits)

section \<open>The nul-file guard\<close>

text \<open>
  C6.  When the guard reads \<^verbatim>\<open>nul\<close> as staged, its two remediation actions are
  independent best-effort steps.  The guard returns exit code 1 whatever the two
  permissions are, so neither failure escapes as a fault.  The unstage command is run
  whether or not the deletion worked, and the deletion of a regular file \<^verbatim>\<open>nul\<close> is
  attempted whether or not the unstage will work.  Each step takes effect on its own: a
  permitted deletion removes the file even when the unstage fails, a permitted unstage
  takes \<^verbatim>\<open>nul\<close> out of the index even when the deletion fails.
\<close>

theorem nul_remediation_best_effort:
  assumes "''nul'' \<in> set (staged w)"
  shows "exit_code (main_prevent_nul_file e w) = 1
       \<and> Run (git_reset_cmd ''nul'') None Captured \<in> set (trace (main_prevent_nul_file e w))
       \<and> (files w (nul_path e) = RegularFile \<longrightarrow>
            Unlink (nul_path e) \<in> set (trace (main_prevent_nul_file e w)))
       \<and> (files w (nul_path e) = RegularFile \<and> unlink_permitted w \<longrightarrow>
            files (final (main_prevent_nul_file e w)) (nul_path e) = Absent)
       \<and> (reset_permitted w \<longrightarrow> ''nul'' \<notin> set (index (final (main_prevent_nul_file e w))))"
  by (simp add: nul_staged_outcome [OF assms] try_delete_nul_trace try_delete_nul_files
      try_delete_nul_index try_delete_nul_reset git_reset_head_def)

lemma nul_path_env0: "nul_path env0 = ''/repo/nul''"
  by (simp add: nul_path_def env0_def path_join_def)

lemma staged_single_nul: "staged (mk_world [''nul''] fs a b) = [''nul'']"
  by (simp add: staged_def git_diff_lines_def mk_world_def strip_nul)

text \<open>
  The deletion is refused and the unstage works: the guard still exits 1, has attempted
  both steps, and \<^verbatim>\<open>nul\<close> has left the index.
\<close>

theorem nul_remediation_best_effort_witness:
  "''nul'' \<in> set (staged (mk_world [''nul''] [(''/repo/nul'', RegularFile)] False True))
   \<and> exit_code (main_prevent_nul_file env0
        (mk_world [''nul''] [(''/repo/nul'', RegularFile)] False True)) = 1
   \<and> Run (git_reset_cmd ''nul'') None Captured \<in> set (trace (main_prevent_nul_file env0
        (mk_world [''nul''] [(''/repo/nul'', RegularFile)] False True)))
   \<and> Unlink ''/repo/nul'' \<in> set (trace (main_prevent_nul_file env0
        (mk_world [''nul''] [(''/repo/nul'', RegularFile)] False True)))
   \<and> ''nul'' \<notin> set (index (final (main_prevent_nul_file env0
        (mk_world [''nul''] [(''/repo/nul'', RegularFile)] False True))))"
proof -
  let ?w = "mk_world [''nul''] [(''/repo/nul'', RegularFile)] False True"
  have h: "''nul'' \<in> set (staged ?w)"
    by (simp add: staged_single_nul)
  have f: "files ?w (nul_path env0) = RegularFile" "reset_permitted ?w"
    by (simp_all add: mk_world_def nul_path_env0)
  show ?thesis
    using h f nul_remediation_best_effort [OF h, of env0] by (simp add: nul_path_env0)
qed


section \<open>The agent-pointer validator\<close>

lemma generator_env0: "generator env0 = ''/repo/.agent/scripts/generate_pointers.py''"
  by (simp add: generator_def env0_def path_join_def)

lemma validate_invoked:
  assumes "list_ex (re_match RELEVANT_PATTERN) (staged w)"
    and "path_exists w (generator e)"
  shows "main_validate_agent_pointers e py w =
     (let proc = fst (py (generator_cmd e) w); w' = snd (py (generator_cmd e) w)
      in if returncode proc = 0 then
           \<lparr>exit_code = 0,
            trace = [Run git_diff_cmd None Captured,
                     Stdout ''Detected changes to agent files or pointer files\<newline>'',
                     Run (generator_cmd e) None Captured,
                     Stdout ''Agent pointer files are up to date\<newline>''],
            final = w'\<rparr>
         else
           \<lparr>exit_code = 1,
            trace = [Run git_diff_cmd None Captured,
                     Stdout ''Detected changes to agent files or pointer files\<newline>'',
                     Run (generator_cmd e) None Captured,
                     Stdout ''\<newline>Agent pointer files are out of sync!\<newline>\<newline>'',
                     Stdout ''To fix, run:\<newline>'',
                     Stdout (''  '' @ path_name (sys_executable e) @ '' '' @ generator e
                             @ ''\<newline>''),
                     Stdout ''  git add CLAUDE.md AGENTS.md .github/copilot-instructions.md .windsurf/rules.md\<newline>\<newline>'',
                     Stdout (stdout proc),
                     Stderr (stderr proc)],
            final = w'\<rparr>)"
  using assms by (simp add: main_validate_agent_pointers_def Let_def split: prod.splits)

lemma validate_missing:
  assumes "list_ex (re_match RELEVANT_PATTERN) (staged w)"
    and "\<not> path_exists w (generator e)"
  shows "main_validate_agent_pointers e py w =
           \<lparr>exit_code = 1,
            trace = [Run git_diff_cmd None Captured,
                     Stdout ''Detected changes to agent files or pointer files\<newline>'',
                     Stderr ''Error: .agent/scripts/generate_pointers.py not found.\<newline>''],
            final = w\<rparr>"
  using assms by (simp add: main_validate_agent_pointers_def)

lemma validate_skipped:
  assumes "\<not> list_ex (re_match RELEVANT_PATTERN) (staged w)"
  shows "main_validate_agent_pointers e py w =
        \<lparr>exit_code = 0,
         trace = [Run git_diff_cmd None Captured,
                  Stdout ''No agent files modified, skipping validation\<newline>''],
         final = w\<rparr>"
  using assms by (simp add: main_validate_agent_pointers_def)

text \<open>
  C8.  When some staged path matches the relevance pattern and the generator script
  exists, the validator runs the interpreter on the generator with \<^verbatim>\<open>--check\<close>, output
  captured.  If the generator exits 0, the validator prints the up-to-date line and exits
  0.  If it exits with anything else, the validator exits 1 and its output holds the
  generator's captured stdout (on standard output), its captured stderr (on standard
  error) and the two lines of the regenerate-and-re-stage command.
\<close>

theorem validator_check_outcomes:
  assumes "list_ex (re_match RELEVANT_PATTERN) (staged w)"
    and "path_exists w (generator e)"
    and "py (generator_cmd e) w = (proc, w')"
  shows "Run (generator_cmd e) None Captured \<in> set (trace (main_validate_agent_pointers e py w))
       \<and> generator_cmd e = [sys_executable e, generator e, ''--check'']
       \<and> (returncode proc = 0 \<longrightarrow>
            exit_code (main_validate_agent_pointers e py w) = 0
          \<and> Stdout ''Agent pointer files are up to date\<newline>''
              \<in> set (trace (main_validate_agent_pointers e py w)))
       \<and> (returncode proc \<noteq> 0 \<longrightarrow>
            exit_code (main_validate_agent_pointers e py w) = 1
          \<and> Stdout (stdout proc) \<in> set (trace (main_validate_agent_pointers e py w))
          \<and> Stderr (stderr proc) \<in> set (trace (main_validate_agent_pointers e py w))
          \<and> Stdout (''  '' @ path_name (sys_executable e) @ '' '' @ generator e @ ''\<newline>'')
              \<in> set (trace (main_validate_agent_pointers e py w))
          \<and> Stdout ''  git add CLAUDE.md AGENTS.md .github/copilot-instructions.md .windsurf/rules.md\<newline>\<newline>''
              \<in> set (trace (main_validate_agent_pointers e py w)))"
  using assms(3)
  by (simp add: validate_invoked [OF assms(1,2)] Let_def generator_cmd_def)

lemma staged_agents: "staged (mk_world [''AGENTS.md''] fs a b) = [''AGENTS.md'']"
  by (simp add: staged_def git_diff_lines_def mk_world_def strip_def is_space_def)

lemma relevant_agents: "re_match RELEVANT_PATTERN ''AGENTS.md''"
  by (simp add: re_match_def RELEVANT_PATTERN_def startswith_def)

text \<open>
  \<^verbatim>\<open>AGENTS.md\<close> is staged, the generator exists and reports stale pointers with status 1.
\<close>

theorem validator_check_outcomes_witness:
  "exit_code (main_validate_agent_pointers env0 (child 1 ''CLAUDE.md is stale'' ''boom'')
      (mk_world [''AGENTS.md''] [(''/repo/.agent/scripts/generate_pointers.py'', RegularFile)]
         True True)) = 1
   \<and> Stdout ''CLAUDE.md is stale'' \<in> set (trace (main_validate_agent_pointers env0
        (child 1 ''CLAUDE.md is stale'' ''boom'')
        (mk_world [''AGENTS.md''] [(''/repo/.agent/scripts/generate_pointers.py'', RegularFile)]
           True True)))
   \<and> Stderr ''boom'' \<in> set (trace (main_validate_agent_pointers env0
        (child 1 ''CLAUDE.md is stale'' ''boom'')
        (mk_world [''AGENTS.md''] [(''/repo/.agent/scripts/generate_pointers.py'', RegularFile)]
           True True)))
   \<and> Stdout ''  python3 /repo/.agent/scripts/generate_pointers.py\<newline>''
        \<in> set (trace (main_validate_agent_pointers env0
        (child 1 ''CLAUDE.md is stale'' ''boom'')
        (mk_world [''AGENTS.md''] [(''/repo/.agent/scripts/generate_pointers.py'', RegularFile)]
           True True)))"
proof -
  let ?w = "mk_world [''AGENTS.md''] [(''/repo/.agent/scripts/generate_pointers.py'', RegularFile)]
         True True"
  let ?py = "child 1 ''CLAUDE.md is stale'' ''boom''"
  have m: "list_ex (re_match RELEVANT_PATTERN) (staged ?w)"
    by (simp add: staged_agents relevant_agents)
  have g: "path_exists ?w (generator env0)"
    by (simp add: path_exists_def generator_env0 mk_world_def)
  have p: "?py (generator_cmd env0) ?w =
             (\<lparr>returncode = 1, stdout = ''CLAUDE.md is stale'', stderr = ''boom''\<rparr>, ?w)"
    by (simp add: child_def)
  have n: "path_name (sys_executable env0) = ''python3''"
    by (simp add: path_name_def env0_def)
  show ?thesis
    using validator_check_outcomes [where py = ?py and e = env0 and w = ?w, OF m g p] by (simp add: n generator_env0)
qed


section \<open>The nul-file guard: what is left behind\<close>











text \<open>
  C5 as stated fails where the entry at \<^verbatim>\<open>nul\<close> is not a regular file.  With \<^verbatim>\<open>nul\<close>
  staged (a submodule of that name, say, or a staged deletion) and a directory
  \<^verbatim>\<open>nul\<close> on disk, both permissions granted, the test
  \<^verbatim>\<open>nul_path.exists() and nul_path.is_file()\<close> is false, no deletion is attempted, and the
  directory is still there after the guard has exited 1.
\<close>

theorem nul_directory_left_counterexample:
  "''nul'' \<in> set (index (mk_world [''nul''] [(''/repo/nul'', Directory)] True True))
   \<and> ''nul'' \<in> set (staged (mk_world [''nul''] [(''/repo/nul'', Directory)] True True))
   \<and> unlink_permitted (mk_world [''nul''] [(''/repo/nul'', Directory)] True True)
   \<and> reset_permitted (mk_world [''nul''] [(''/repo/nul'', Directory)] True True)
   \<and> exit_code (main_prevent_nul_file env0
        (mk_world [''nul''] [(''/repo/nul'', Directory)] True True)) = 1
   \<and> path_exists (final (main_prevent_nul_file env0
        (mk_world [''nul''] [(''/repo/nul'', Directory)] True True))) (nul_path env0)"
proof -
  let ?w = "mk_world [''nul''] [(''/repo/nul'', Directory)] True True"
  have h: "''nul'' \<in> set (staged ?w)"
    by (simp add: staged_single_nul)
  have f: "files ?w (nul_path env0) = Directory"
    by (simp add: mk_world_def nul_path_env0)
  have "files (final (main_prevent_nul_file env0 ?w)) (nul_path env0) = Directory"
    using f by (simp add: nul_staged_outcome [OF h] git_reset_head_def try_delete_nul_files
        try_delete_nul_reset)
  then show ?thesis
    using h by (simp add: path_exists_def nul_staged_outcome [OF h]) (simp add: mk_world_def)
qed

text \<open>
  C5, amended.  Whenever the guard reads \<^verbatim>\<open>nul\<close> as staged it exits 1; with the deletion
  and the unstage permitted, \<^verbatim>\<open>nul\<close> is afterwards absent from the index and no regular
  file \<^verbatim>\<open>nul\<close> remains in the working directory: a regular file has been deleted, an
  absent path stays absent, and a directory of that name is left in place.
\<close>

theorem nul_staged_cleanup:
  assumes "''nul'' \<in> set (staged w)" and "unlink_permitted w" and "reset_permitted w"
  shows "exit_code (main_prevent_nul_file e w) = 1
       \<and> ''nul'' \<notin> set (index (final (main_prevent_nul_file e w)))
       \<and> \<not> path_is_file (final (main_prevent_nul_file e w)) (nul_path e)
       \<and> files (final (main_prevent_nul_file e w)) (nul_path e) =
           (if files w (nul_path e) = Directory then Directory else Absent)"
  using assms(2,3)
  by (cases "files w (nul_path e)")
     (simp_all add: nul_staged_outcome [OF assms(1)] git_reset_head_def try_delete_nul_files
        try_delete_nul_reset try_delete_nul_index path_is_file_def)

text \<open>A staged regular file \<^verbatim>\<open>nul\<close>: gone from the index and from the disk.\<close>

theorem nul_staged_cleanup_witness:
  "''nul'' \<in> set (staged (mk_world [''nul''] [(''/repo/nul'', RegularFile)] True True))
   \<and> exit_code (main_prevent_nul_file env0
        (mk_world [''nul''] [(''/repo/nul'', RegularFile)] True True)) = 1
   \<and> ''nul'' \<notin> set (index (final (main_prevent_nul_file env0
        (mk_world [''nul''] [(''/repo/nul'', RegularFile)] True True))))
   \<and> files (final (main_prevent_nul_file env0
        (mk_world [''nul''] [(''/repo/nul'', RegularFile)] True True))) ''/repo/nul'' = Absent"
proof -
  let ?w = "mk_world [''nul''] [(''/repo/nul'', RegularFile)] True True"
  have h: "''nul'' \<in> set (staged ?w)"
    by (simp add: staged_single_nul)
  have u: "unlink_permitted ?w" and r: "reset_permitted ?w"
    by (simp_all add: mk_world_def)
  have f: "files ?w (nul_path env0) = RegularFile"
    by (simp add: mk_world_def nul_path_env0)
  show ?thesis
    using h f nul_staged_cleanup [OF h u r, of env0] by (simp add: nul_path_env0)
qed


section \<open>The agent-pointer validator: gate and frame\<close>

text \<open>The regular expression, read as the five prefixes it accepts.\<close>

lemma relevant_iff:
  "list_ex (re_match RELEVANT_PATTERN) ps =
     (\<exists>p\<in>set ps. startswith p ''.agent/'' \<or> startswith p ''CLAUDE.md''
        \<or> startswith p ''AGENTS.md'' \<or> startswith p ''.github/copilot-instructions.md''
        \<or> startswith p ''.windsurf/rules.md'')"
  by (simp add: list_ex_iff re_match_def RELEVANT_PATTERN_def)

lemma generator_cmd_not_git: "generator_cmd e \<noteq> git_diff_cmd"
  by (simp add: generator_cmd_def git_diff_cmd_def)

lemma validate_invokes_iff:
  "Run (generator_cmd e) None Captured \<in> set (trace (main_validate_agent_pointers e py w)) =
     (path_exists w (generator e) \<and> list_ex (re_match RELEVANT_PATTERN) (staged w))"
proof (cases "list_ex (re_match RELEVANT_PATTERN) (staged w)")
  case False
  then show ?thesis
    by (simp add: validate_skipped generator_cmd_not_git)
next
  case m: True
  show ?thesis
  proof (cases "path_exists w (generator e)")
    case True
    then show ?thesis
      using m by (simp add: validate_invoked [OF m True] Let_def)
  next
    case False
    then show ?thesis
      using m by (simp add: validate_missing [OF m False] generator_cmd_not_git)
  qed
qed

lemma validate_final:
  "final (main_validate_agent_pointers e py w) =
     (if path_exists w (generator e) \<and> list_ex (re_match RELEVANT_PATTERN) (staged w)
      then snd (py (generator_cmd e) w) else w)"
  by (simp add: main_validate_agent_pointers_def Let_def split: prod.splits)

lemma validate_events:
  "ev \<in> set (trace (main_validate_agent_pointers e py w)) \<Longrightarrow>
     ev = Run git_diff_cmd None Captured \<or> ev = Run (generator_cmd e) None Captured
     \<or> (\<exists>s. ev = Stdout s) \<or> (\<exists>s. ev = Stderr s)"
  by (auto simp: main_validate_agent_pointers_def Let_def split: prod.splits if_splits)

text \<open>
  C3, amended.  The validator runs the generator if and only if the generator script
  exists and at least one staged path (as read: stripped of surrounding white space)
  begins with \<^verbatim>\<open>.agent/\<close> or with one of the four names \<^verbatim>\<open>CLAUDE.md\<close>, \<^verbatim>\<open>AGENTS.md\<close>,
  \<^verbatim>\<open>.github/copilot-instructions.md\<close>, \<^verbatim>\<open>.windsurf/rules.md\<close>.  When no staged path
  begins so, it runs the git query only, prints the skipped line, exits 0 and leaves the
  world as it was.
\<close>

theorem validator_gate:
  "(Run (generator_cmd e) None Captured \<in> set (trace (main_validate_agent_pointers e py w))) =
     (path_exists w (generator e) \<and>
      (\<exists>p\<in>set (staged w). startswith p ''.agent/'' \<or> startswith p ''CLAUDE.md''
         \<or> startswith p ''AGENTS.md'' \<or> startswith p ''.github/copilot-instructions.md''
         \<or> startswith p ''.windsurf/rules.md''))
   \<and> (\<not> (\<exists>p\<in>set (staged w). startswith p ''.agent/'' \<or> startswith p ''CLAUDE.md''
         \<or> startswith p ''AGENTS.md'' \<or> startswith p ''.github/copilot-instructions.md''
         \<or> startswith p ''.windsurf/rules.md'') \<longrightarrow>
        main_validate_agent_pointers e py w =
          \<lparr>exit_code = 0,
           trace = [Run git_diff_cmd None Captured,
                    Stdout ''No agent files modified, skipping validation\<newline>''],
           final = w\<rparr>)"
  unfolding relevant_iff [symmetric]
  by (simp add: validate_invokes_iff validate_skipped)

text \<open>
  C10.  On every path the validator's effects are the git query for the staged paths, at
  most the run of the generator with \<^verbatim>\<open>--check\<close>, and writes to its two streams: the
  trace holds no deletion and no other command.  The world it leaves is the one it found,
  or, when the generator was run, the one the generator left; with a generator that only
  reports, the world is unchanged.
\<close>

theorem validator_frame:
  "(\<forall>ev\<in>set (trace (main_validate_agent_pointers e py w)).
       ev = Run git_diff_cmd None Captured \<or> ev = Run (generator_cmd e) None Captured
       \<or> (\<exists>s. ev = Stdout s) \<or> (\<exists>s. ev = Stderr s))
   \<and> final (main_validate_agent_pointers e py w) =
       (if Run (generator_cmd e) None Captured \<in> set (trace (main_validate_agent_pointers e py w))
        then snd (py (generator_cmd e) w) else w)
   \<and> (snd (py (generator_cmd e) w) = w \<longrightarrow> final (main_validate_agent_pointers e py w) = w)"
  using validate_events [of _ e py w]
  by (auto simp: validate_invokes_iff validate_final)


subsection \<open>Concrete runs of the validator\<close>

lemma staged_one_clean:
  "strip p = p \<Longrightarrow> p \<noteq> [] \<Longrightarrow> staged (mk_world [p] fs a b) = [p]"
  by (simp add: staged_def git_diff_lines_def mk_world_def)

lemma staged_bak: "staged (mk_world [''CLAUDE.md.bak''] fs a b) = [''CLAUDE.md.bak'']"
  by (rule staged_one_clean) (simp_all add: strip_def is_space_def)

lemma staged_src: "staged (mk_world [''src/main.py''] fs a b) = [''src/main.py'']"
  by (rule staged_one_clean) (simp_all add: strip_def is_space_def)

text \<open>
  C3 as stated fails in both directions.  With \<^verbatim>\<open>AGENTS.md\<close> staged and the generator
  script missing, a staged path equals one of the four names and yet the generator is
  not run (the validator stops at the existence test).  With \<^verbatim>\<open>CLAUDE.md.bak\<close> staged and
  the generator present, no staged path is under \<^verbatim>\<open>.agent/\<close> or equal to one of the four
  names and yet the generator is run: the pattern is anchored at the start only.
\<close>

theorem validator_gate_counterexample:
  "list_ex spec_relevant (staged (mk_world [''AGENTS.md''] [] True True))
   \<and> Run (generator_cmd env0) None Captured \<notin> set (trace (main_validate_agent_pointers env0
        (child 0 [] []) (mk_world [''AGENTS.md''] [] True True)))
   \<and> \<not> list_ex spec_relevant (staged (mk_world [''CLAUDE.md.bak'']
        [(''/repo/.agent/scripts/generate_pointers.py'', RegularFile)] True True))
   \<and> Run (generator_cmd env0) None Captured \<in> set (trace (main_validate_agent_pointers env0
        (child 0 [] []) (mk_world [''CLAUDE.md.bak'']
        [(''/repo/.agent/scripts/generate_pointers.py'', RegularFile)] True True)))"
proof -
  let ?a = "mk_world [''AGENTS.md''] [] True True"
  let ?b = "mk_world [''CLAUDE.md.bak'']
        [(''/repo/.agent/scripts/generate_pointers.py'', RegularFile)] True True"
  have a1: "list_ex spec_relevant (staged ?a)"
    by (simp add: staged_agents spec_relevant_def)
  have a2: "\<not> path_exists ?a (generator env0)"
    by (simp add: path_exists_def mk_world_def)
  have b1: "\<not> list_ex spec_relevant (staged ?b)"
    by (simp add: staged_bak spec_relevant_def startswith_def)
  have b2: "path_exists ?b (generator env0)"
    by (simp add: path_exists_def mk_world_def generator_env0)
  have b3: "list_ex (re_match RELEVANT_PATTERN) (staged ?b)"
    by (simp add: staged_bak re_match_def RELEVANT_PATTERN_def startswith_def)
  show ?thesis
    using a1 a2 b1 b2 b3 by (simp add: validate_invokes_iff)
qed

text \<open>
  \<^verbatim>\<open>src/main.py\<close> alone is skipped with exit code 0; \<^verbatim>\<open>CLAUDE.md.bak\<close> alone, generator
  present, runs the generator.
\<close>

theorem validator_gate_witness:
  "\<not> list_ex (re_match RELEVANT_PATTERN) (staged (mk_world [''src/main.py'']
        [(''/repo/.agent/scripts/generate_pointers.py'', RegularFile)] True True))
   \<and> Run (generator_cmd env0) None Captured \<notin> set (trace (main_validate_agent_pointers env0
        (child 1 [] []) (mk_world [''src/main.py'']
        [(''/repo/.agent/scripts/generate_pointers.py'', RegularFile)] True True)))
   \<and> exit_code (main_validate_agent_pointers env0
        (child 1 [] []) (mk_world [''src/main.py'']
        [(''/repo/.agent/scripts/generate_pointers.py'', RegularFile)] True True)) = 0
   \<and> Run (generator_cmd env0) None Captured \<in> set (trace (main_validate_agent_pointers env0
        (child 1 [] []) (mk_world [''CLAUDE.md.bak'']
        [(''/repo/.agent/scripts/generate_pointers.py'', RegularFile)] True True)))"
proof -
  let ?s = "mk_world [''src/main.py'']
        [(''/repo/.agent/scripts/generate_pointers.py'', RegularFile)] True True"
  let ?b = "mk_world [''CLAUDE.md.bak'']
        [(''/repo/.agent/scripts/generate_pointers.py'', RegularFile)] True True"
  have s1: "\<not> list_ex (re_match RELEVANT_PATTERN) (staged ?s)"
    by (simp add: staged_src re_match_def RELEVANT_PATTERN_def startswith_def)
  have s2: "\<not> (\<exists>p\<in>set (staged ?s). startswith p ''.agent/'' \<or> startswith p ''CLAUDE.md''
         \<or> startswith p ''AGENTS.md'' \<or> startswith p ''.github/copilot-instructions.md''
         \<or> startswith p ''.windsurf/rules.md'')"
    by (simp add: staged_src startswith_def)
  have b1: "\<exists>p\<in>set (staged ?b). startswith p ''.agent/'' \<or> startswith p ''CLAUDE.md''
         \<or> startswith p ''AGENTS.md'' \<or> startswith p ''.github/copilot-instructions.md''
         \<or> startswith p ''.windsurf/rules.md''"
    by (simp add: staged_bak startswith_def)
  have b2: "path_exists ?b (generator env0)"
    by (simp add: path_exists_def mk_world_def generator_env0)
  show ?thesis
    using s1 s2 b1 b2
      validator_gate [of env0 "child 1 [] []" ?s]
      validator_gate [of env0 "child 1 [] []" ?b]
    by (simp add: generator_cmd_not_git)
qed

text \<open>
  A failing check with a generator that touches nothing: the world is the same afterwards,
  nothing was deleted and nothing was unstaged.
\<close>

theorem validator_frame_witness:
  "final (main_validate_agent_pointers env0 (child 1 ''stale'' [])
      (mk_world [''AGENTS.md''] [(''/repo/.agent/scripts/generate_pointers.py'', RegularFile)]
         True True))
     = mk_world [''AGENTS.md''] [(''/repo/.agent/scripts/generate_pointers.py'', RegularFile)]
         True True
   \<and> Unlink ''/repo/.agent/scripts/generate_pointers.py''
       \<notin> set (trace (main_validate_agent_pointers env0 (child 1 ''stale'' [])
      (mk_world [''AGENTS.md''] [(''/repo/.agent/scripts/generate_pointers.py'', RegularFile)]
         True True)))
   \<and> Run (git_reset_cmd ''AGENTS.md'') None Captured
       \<notin> set (trace (main_validate_agent_pointers env0 (child 1 ''stale'' [])
      (mk_world [''AGENTS.md''] [(''/repo/.agent/scripts/generate_pointers.py'', RegularFile)]
         True True)))"
proof -
  let ?w = "mk_world [''AGENTS.md''] [(''/repo/.agent/scripts/generate_pointers.py'', RegularFile)]
         True True"
  let ?py = "child 1 ''stale'' []"
  let ?r = "main_validate_agent_pointers env0 ?py ?w"
  have c: "snd (?py (generator_cmd env0) ?w) = ?w"
    by (simp add: child_def)
  have d: "git_reset_cmd ''AGENTS.md'' \<noteq> git_diff_cmd"
    "git_reset_cmd ''AGENTS.md'' \<noteq> generator_cmd env0"
    by (simp_all add: git_reset_cmd_def git_diff_cmd_def generator_cmd_def)
  note fr = validator_frame [of env0 ?py ?w]
  have "final ?r = ?w"
    using fr c by simp
  moreover have "Unlink ''/repo/.agent/scripts/generate_pointers.py'' \<notin> set (trace ?r)"
    using fr by blast
  moreover have "Run (git_reset_cmd ''AGENTS.md'') None Captured \<notin> set (trace ?r)"
    using fr d by blast
  ultimately show ?thesis
    by simp
qed


section \<open>The scattered-docs hook\<close>

text \<open>The two modes of the hook, in terms of what the organizer returns.\<close>

lemma organize_auto_fix:
  "main_organize_scattered_docs e py (Namespace True) w =
     \<lparr>exit_code = returncode (fst (py (organizer_cmd e ''--auto-move'') w)),
      trace = [Stdout ''Auto-organizing scattered documentation files...\<newline>'',
               Run (organizer_cmd e ''--auto-move'') (Some (ROOT_DIR e)) Inherited,
               Stdout (if returncode (fst (py (organizer_cmd e ''--auto-move'') w)) = 0
                       then ''SUCCESS: Documentation organization completed successfully\<newline>''
                       else ''ERROR: Documentation organization failed\<newline>'')],
      final = snd (py (organizer_cmd e ''--auto-move'') w)\<rparr>"
  by (simp add: main_organize_scattered_docs_def split: prod.splits)

lemma organize_warn:
  "main_organize_scattered_docs e py (Namespace False) w =
     (if returncode (fst (py (organizer_cmd e ''--dry-run'') w)) = 0 then
        \<lparr>exit_code = 0,
         trace = [Run (organizer_cmd e ''--dry-run'') (Some (ROOT_DIR e)) Captured,
                  Stdout ''SUCCESS: All documentation files are properly organized\<newline>''],
         final = snd (py (organizer_cmd e ''--dry-run'') w)\<rparr>
      else
        \<lparr>exit_code = 1,
         trace = [Run (organizer_cmd e ''--dry-run'') (Some (ROOT_DIR e)) Captured,
                  Stdout ''WARNING: Scattered documentation files detected!\<newline>'',
                  Stdout ''\<newline>The following files should be organized:\<newline>'',
                  Stdout (stdout (fst (py (organizer_cmd e ''--dry-run'') w)) @ ''\<newline>''),
                  Stdout ''\<newline>To automatically organize these files, run:\<newline>'',
                  Stdout ''  python git-hooks/checks/python/organize_docs.py --auto-move\<newline>'',
                  Stdout ''\<newline>Or add --auto-fix to this hook to organize automatically on commit.\<newline>''],
         final = snd (py (organizer_cmd e ''--dry-run'') w)\<rparr>)"
  by (simp add: main_organize_scattered_docs_def split: prod.splits)

lemma organize_script_env0:
  "ORGANIZE_SCRIPT env0 = ''/repo/git-hooks/checks/python/organize_docs.py''"
  "ROOT_DIR env0 = ''/repo''"
  by (simp_all add: ORGANIZE_SCRIPT_def ROOT_DIR_def SCRIPT_DIR_def path_parent_def
      path_join_def env0_def)

text \<open>
  C2 as stated fails in warn mode: an organizer dry run that exits 2 makes the hook
  exit 1, not 2 (\<^verbatim>\<open>sys.exit(1)\<close> on every non-zero status).
\<close>

theorem organizer_exit_code_counterexample:
  "returncode (fst (child 2 [] [] (organizer_cmd env0 ''--dry-run'') (mk_world [] [] True True))) = 2
   \<and> exit_code (main_organize_scattered_docs env0 (child 2 [] []) (Namespace False)
        (mk_world [] [] True True)) = 1"
  by (simp add: organize_warn child_def)

text \<open>
  C2, amended.  With \<^verbatim>\<open>--auto-fix\<close> the hook's exit code is the organizer's exit code,
  whatever it is.  Without it the hook exits 0 when the organizer's dry run exits 0 and
  exits 1 on every other status.  In both modes the hook exits 0 exactly when the
  organizer exits 0.
\<close>

theorem organizer_exit_code:
  "exit_code (main_organize_scattered_docs e py (Namespace True) w)
     = returncode (fst (py (organizer_cmd e ''--auto-move'') w))
   \<and> exit_code (main_organize_scattered_docs e py (Namespace False) w)
     = (if returncode (fst (py (organizer_cmd e ''--dry-run'') w)) = 0 then 0 else 1)
   \<and> (exit_code (main_organize_scattered_docs e py (Namespace True) w) = 0)
     = (returncode (fst (py (organizer_cmd e ''--auto-move'') w)) = 0)
   \<and> (exit_code (main_organize_scattered_docs e py (Namespace False) w) = 0)
     = (returncode (fst (py (organizer_cmd e ''--dry-run'') w)) = 0)"
  by (simp add: organize_auto_fix organize_warn)

text \<open>Status 3 is passed on by the fix mode and becomes 1 in warn mode; status 0 stays 0.\<close>

theorem organizer_exit_code_witness:
  "exit_code (main_organize_scattered_docs env0 (child 3 [] []) (Namespace True)
        (mk_world [] [] True True)) = 3
   \<and> exit_code (main_organize_scattered_docs env0 (child 3 [] []) (Namespace False)
        (mk_world [] [] True True)) = 1
   \<and> exit_code (main_organize_scattered_docs env0 (child 0 [] []) (Namespace False)
        (mk_world [] [] True True)) = 0"
  using organizer_exit_code [of env0 "child 3 [] []" "mk_world [] [] True True"]
    organizer_exit_code [of env0 "child 0 [] []" "mk_world [] [] True True"]
  by (simp add: child_def)

text \<open>
  C4 as stated fails for the scattered-docs hook.  Its warn mode runs the organizer with
  output captured; when the organizer fails with \<^verbatim>\<open>boom\<close> on its standard error, the hook
  writes nothing to its own standard error: only \<^verbatim>\<open>result.stdout\<close> is printed.
\<close>

theorem captured_stderr_counterexample:
  "returncode (fst (child 1 ''foo.md should move to docs/'' ''boom''
        (organizer_cmd env0 ''--dry-run'') (mk_world [] [] True True))) = 1
   \<and> stderr (fst (child 1 ''foo.md should move to docs/'' ''boom''
        (organizer_cmd env0 ''--dry-run'') (mk_world [] [] True True))) = ''boom''
   \<and> Run (organizer_cmd env0 ''--dry-run'') (Some (ROOT_DIR env0)) Captured
        \<in> set (trace (main_organize_scattered_docs env0
             (child 1 ''foo.md should move to docs/'' ''boom'') (Namespace False)
             (mk_world [] [] True True)))
   \<and> Stderr ''boom'' \<notin> set (trace (main_organize_scattered_docs env0
        (child 1 ''foo.md should move to docs/'' ''boom'') (Namespace False)
        (mk_world [] [] True True)))"
  by (simp add: organize_warn child_def)

text \<open>
  C4, amended.  When the generator fails, the agent-pointer validator writes the
  generator's captured stderr to its own standard error, next to the diagnostic on
  standard output.  When the organizer's dry run fails, the scattered-docs hook prints its
  warning and the captured stdout on standard output; it never writes to standard error,
  so the captured stderr is dropped.
\<close>

theorem captured_stderr:
  "(list_ex (re_match RELEVANT_PATTERN) (staged w) \<and> path_exists w (generator e)
      \<and> returncode (fst (py (generator_cmd e) w)) \<noteq> 0 \<longrightarrow>
        Stderr (stderr (fst (py (generator_cmd e) w)))
          \<in> set (trace (main_validate_agent_pointers e py w))
      \<and> Stdout ''\<newline>Agent pointer files are out of sync!\<newline>\<newline>''
          \<in> set (trace (main_validate_agent_pointers e py w)))
   \<and> (returncode (fst (py (organizer_cmd e ''--dry-run'') w)) \<noteq> 0 \<longrightarrow>
        Stdout ''WARNING: Scattered documentation files detected!\<newline>''
          \<in> set (trace (main_organize_scattered_docs e py (Namespace False) w))
      \<and> Stdout (stdout (fst (py (organizer_cmd e ''--dry-run'') w)) @ ''\<newline>'')
          \<in> set (trace (main_organize_scattered_docs e py (Namespace False) w)))
   \<and> (\<forall>s. Stderr s \<notin> set (trace (main_organize_scattered_docs e py (Namespace False) w)))"
proof -
  have "list_ex (re_match RELEVANT_PATTERN) (staged w) \<and> path_exists w (generator e)
      \<and> returncode (fst (py (generator_cmd e) w)) \<noteq> 0 \<longrightarrow>
        Stderr (stderr (fst (py (generator_cmd e) w)))
          \<in> set (trace (main_validate_agent_pointers e py w))
      \<and> Stdout ''\<newline>Agent pointer files are out of sync!\<newline>\<newline>''
          \<in> set (trace (main_validate_agent_pointers e py w))"
    by (simp add: validate_invoked Let_def)
  then show ?thesis
    by (simp add: organize_warn)
qed

text \<open>Both callers with a collaborator that fails and writes \<^verbatim>\<open>boom\<close> to its stderr.\<close>

theorem captured_stderr_witness:
  "Stderr ''boom'' \<in> set (trace (main_validate_agent_pointers env0 (child 1 ''stale'' ''boom'')
      (mk_world [''AGENTS.md''] [(''/repo/.agent/scripts/generate_pointers.py'', RegularFile)]
         True True)))
   \<and> Stdout ''foo.md should move to docs/\<newline>''
       \<in> set (trace (main_organize_scattered_docs env0
            (child 1 ''foo.md should move to docs/'' ''boom'') (Namespace False)
            (mk_world [] [] True True)))
   \<and> Stderr ''boom'' \<notin> set (trace (main_organize_scattered_docs env0
        (child 1 ''foo.md should move to docs/'' ''boom'') (Namespace False)
        (mk_world [] [] True True)))"
proof -
  let ?w = "mk_world [''AGENTS.md''] [(''/repo/.agent/scripts/generate_pointers.py'', RegularFile)]
         True True"
  have m: "list_ex (re_match RELEVANT_PATTERN) (staged ?w)"
    by (simp add: staged_agents relevant_agents)
  have g: "path_exists ?w (generator env0)"
    by (simp add: path_exists_def generator_env0 mk_world_def)
  show ?thesis
    using m g captured_stderr [of ?w env0 "child 1 ''stale'' ''boom''"]
      captured_stderr [of "mk_world [] [] True True" env0
        "child 1 ''foo.md should move to docs/'' ''boom''"]
    by (simp add: child_def)
qed

text \<open>
  C1 as stated fails for the scattered-docs hook, which never tests whether the
  organizer script exists.  With no organizer on disk the hook still runs the interpreter
  on the missing path, in the fix mode and in warn mode; the interpreter cannot open the
  file and exits 2, and the fix mode exits 2, not 1.
\<close>

theorem missing_collaborator_counterexample:
  "\<not> path_exists (mk_world [] [] True True) (ORGANIZE_SCRIPT env0)
   \<and> Run (organizer_cmd env0 ''--auto-move'') (Some (ROOT_DIR env0)) Inherited
        \<in> set (trace (main_organize_scattered_docs env0 (child 2 [] ''can't open file'')
             (Namespace True) (mk_world [] [] True True)))
   \<and> exit_code (main_organize_scattered_docs env0 (child 2 [] ''can't open file'')
        (Namespace True) (mk_world [] [] True True)) = 2
   \<and> Run (organizer_cmd env0 ''--dry-run'') (Some (ROOT_DIR env0)) Captured
        \<in> set (trace (main_organize_scattered_docs env0 (child 2 [] ''can't open file'')
             (Namespace False) (mk_world [] [] True True)))"
  by (simp add: organize_auto_fix organize_warn child_def path_exists_def mk_world_def)

text \<open>
  C1, amended.  The agent-pointer validator finds a missing generator before it runs
  anything but the git query: it writes a diagnostic naming
  \<^verbatim>\<open>.agent/scripts/generate_pointers.py\<close> to standard error, exits 1 and changes nothing.
  The scattered-docs hook makes no such test: in either mode it runs the interpreter on
  the organizer's path, whatever lies there.
\<close>

theorem missing_collaborator:
  "(list_ex (re_match RELEVANT_PATTERN) (staged w) \<and> \<not> path_exists w (generator e) \<longrightarrow>
      main_validate_agent_pointers e py w =
        \<lparr>exit_code = 1,
         trace = [Run git_diff_cmd None Captured,
                  Stdout ''Detected changes to agent files or pointer files\<newline>'',
                  Stderr ''Error: .agent/scripts/generate_pointers.py not found.\<newline>''],
         final = w\<rparr>)
   \<and> Run (organizer_cmd e ''--auto-move'') (Some (ROOT_DIR e)) Inherited
        \<in> set (trace (main_organize_scattered_docs e py (Namespace True) w))
   \<and> Run (organizer_cmd e ''--dry-run'') (Some (ROOT_DIR e)) Captured
        \<in> set (trace (main_organize_scattered_docs e py (Namespace False) w))
   \<and> organizer_cmd e ''--auto-move'' = [sys_executable e, ORGANIZE_SCRIPT e, ''--auto-move'']
   \<and> organizer_cmd e ''--dry-run'' = [sys_executable e, ORGANIZE_SCRIPT e, ''--dry-run'']"
  by (simp add: validate_missing organize_auto_fix organize_warn organizer_cmd_def)

text \<open>Neither collaborator script exists; \<^verbatim>\<open>AGENTS.md\<close> is staged.\<close>

theorem missing_collaborator_witness:
  "\<not> path_exists (mk_world [''AGENTS.md''] [] True True) (generator env0)
   \<and> \<not> path_exists (mk_world [''AGENTS.md''] [] True True) (ORGANIZE_SCRIPT env0)
   \<and> exit_code (main_validate_agent_pointers env0 (child 0 [] [])
        (mk_world [''AGENTS.md''] [] True True)) = 1
   \<and> Stderr ''Error: .agent/scripts/generate_pointers.py not found.\<newline>''
        \<in> set (trace (main_validate_agent_pointers env0 (child 0 [] [])
             (mk_world [''AGENTS.md''] [] True True)))
   \<and> Run (generator_cmd env0) None Captured
        \<notin> set (trace (main_validate_agent_pointers env0 (child 0 [] [])
             (mk_world [''AGENTS.md''] [] True True)))
   \<and> Run [''/usr/bin/python3'', ''/repo/git-hooks/checks/python/organize_docs.py'', ''--dry-run'']
          (Some ''/repo'') Captured
        \<in> set (trace (main_organize_scattered_docs env0 (child 2 [] [])
             (Namespace False) (mk_world [''AGENTS.md''] [] True True)))"
proof -
  let ?w = "mk_world [''AGENTS.md''] [] True True"
  have m: "list_ex (re_match RELEVANT_PATTERN) (staged ?w)"
    by (simp add: staged_agents relevant_agents)
  have g: "\<not> path_exists ?w (generator env0)" "\<not> path_exists ?w (ORGANIZE_SCRIPT env0)"
    by (simp_all add: path_exists_def mk_world_def)
  have x: "sys_executable env0 = ''/usr/bin/python3''"
    by (simp add: env0_def)
  note v = missing_collaborator [of ?w env0 "child 0 [] []"]
  note d = missing_collaborator [of ?w env0 "child 2 [] []"]
  have c: "organizer_cmd env0 ''--dry-run'' =
      [''/usr/bin/python3'', ''/repo/git-hooks/checks/python/organize_docs.py'', ''--dry-run'']"
    using d by (simp add: organize_script_env0 x)
  have "Run (organizer_cmd env0 ''--dry-run'') (Some (ROOT_DIR env0)) Captured
        \<in> set (trace (main_organize_scattered_docs env0 (child 2 [] [])
             (Namespace False) ?w))"
    using d by blast
  then have o: "Run [''/usr/bin/python3'', ''/repo/git-hooks/checks/python/organize_docs.py'',
          ''--dry-run''] (Some ''/repo'') Captured
        \<in> set (trace (main_organize_scattered_docs env0 (child 2 [] [])
             (Namespace False) ?w))"
    by (simp add: c organize_script_env0)
  have "main_validate_agent_pointers env0 (child 0 [] []) ?w =
        \<lparr>exit_code = 1,
         trace = [Run git_diff_cmd None Captured,
                  Stdout ''Detected changes to agent files or pointer files\<newline>'',
                  Stderr ''Error: .agent/scripts/generate_pointers.py not found.\<newline>''],
         final = ?w\<rparr>"
    using v m g by blast
  then show ?thesis
    using g o by (simp add: generator_cmd_not_git)
qed


section \<open>Running a hook twice\<close>















end
